theory Spec2Isabelle
  imports Complex_Main "HOL-Library.AList" "HOL-Library.Log_Nat"
begin

section \<open>Python floats\<close>

text \<open>
  The \<open>users\<close> table declares \<open>balance REAL NOT NULL\<close>, and every amount comes from
  \<open>st.number_input\<close> with a float \<open>min_value\<close>: balances and amounts are Python floats,
  that is IEEE 754 binary64 values. A finite double is modelled by the rational number it
  denotes (the sign of zero is not kept); \<open>+\<close> and \<open>-\<close> compute the exact result and round
  it to the nearest double, ties to even, overflowing to an infinity.
\<close>

datatype pyfloat = Fin rat | PInf | NInf | NaN

definition pow2 :: "int \<Rightarrow> rat" where
  "pow2 e = (if 0 \<le> e then 2 ^ nat e else 1 / 2 ^ nat (- e))"

definition round_half_even :: "rat \<Rightarrow> int" where
  "round_half_even q =
     (let f = \<lfloor>q\<rfloor>; d = q - of_int f
      in if d < 1 / 2 then f else if 1 / 2 < d then f + 1 else if even f then f else f + 1)"

definition ilog2 :: "rat \<Rightarrow> int" where
  \<comment> \<open>for \<open>0 < q\<close>: the exponent \<open>k\<close> with \<open>2^k \<le> q < 2^(k+1)\<close>\<close>
  "ilog2 q =
     (let k = bitlen (fst (quotient_of q)) - bitlen (snd (quotient_of q))
      in if pow2 k \<le> q then k else k - 1)"

definition round_double :: "rat \<Rightarrow> rat" where
  \<comment> \<open>53 significant bits, least exponent \<open>-1074\<close> (subnormals), no upper bound on the exponent\<close>
  "round_double q =
     (if q = 0 then 0
      else let e = max (ilog2 \<bar>q\<bar> - 52) (- 1074)
           in sgn q * of_int (round_half_even (\<bar>q\<bar> / pow2 e)) * pow2 e)"

definition max_double :: rat where
  "max_double = (2 ^ 53 - 1) * 2 ^ 971"

definition to_double :: "rat \<Rightarrow> pyfloat" where
  "to_double q =
     (let r = round_double q
      in if max_double < r then PInf else if r < - max_double then NInf else Fin r)"

fun fadd :: "pyfloat \<Rightarrow> pyfloat \<Rightarrow> pyfloat" where
  "fadd (Fin x) (Fin y) = to_double (x + y)"
| "fadd NaN _ = NaN"
| "fadd _ NaN = NaN"
| "fadd PInf NInf = NaN"
| "fadd NInf PInf = NaN"
| "fadd PInf _ = PInf"
| "fadd _ PInf = PInf"
| "fadd NInf _ = NInf"
| "fadd _ NInf = NInf"

fun fneg :: "pyfloat \<Rightarrow> pyfloat" where
  "fneg (Fin x) = Fin (- x)"
| "fneg PInf = NInf"
| "fneg NInf = PInf"
| "fneg NaN = NaN"

definition fsub :: "pyfloat \<Rightarrow> pyfloat \<Rightarrow> pyfloat" where
  "fsub x y = fadd x (fneg y)"

fun fless :: "pyfloat \<Rightarrow> pyfloat \<Rightarrow> bool" where
  "fless (Fin x) (Fin y) = (x < y)"
| "fless NaN _ = False"
| "fless _ NaN = False"
| "fless _ NInf = False"
| "fless PInf _ = False"
| "fless NInf _ = True"
| "fless _ PInf = True"

section \<open>Database, files and session\<close>

text \<open>
  A row of \<open>users (account_no TEXT PRIMARY KEY, name TEXT NOT NULL, balance REAL NOT NULL,
  enrolled_face_path TEXT UNIQUE NOT NULL)\<close>. The dictionary
  \<open>st.session_state.user_account\<close> holds the same four values (the path under the key
  \<open>'path'\<close>), so it is a value of the same record.
\<close>

record user =
  account_no :: string
  name :: string
  balance :: pyfloat
  enrolled_face_path :: string

text \<open>
  The state the program reads and writes: the table (rows in insertion order), the files
  of the directory \<open>enrolled_faces\<close> and of the directory \<open>temp_clean_db\<close> (\<open>None\<close> when
  that directory does not exist), each by file name, the files the program has written
  anywhere else, by normalised path, and Streamlit's session state. The two directories
  are flat: they hold files, no directories. An image is a value of the type variable
  \<open>'img\<close>.
\<close>

record 'img state =
  users :: "user list"
  enrolled_faces :: "(string \<times> 'img) list"
  temp_clean_db :: "(string \<times> 'img) list option"
  other_files :: "(string \<times> 'img) list"
  logged_in :: bool
  user_account :: "user option"
  debug_match_path :: "string option"

datatype exn = TypeError | IntegrityError | UnidentifiedImageError

datatype 'a result = Returned 'a | Raised exn

text \<open>The messages the handlers return beside their success flag.\<close>

datatype message =
    AccountExists  \<comment> \<open>\<open>"Error: Account number already exists."\<close>\<close>
  | ImageSaveError  \<comment> \<open>\<open>f"Error saving image file: {e}"\<close>\<close>
  | NoFaceDetected  \<comment> \<open>\<open>"Error: No clear face detected in the image. Enrollment failed."\<close>\<close>
  | DeepFaceError  \<comment> \<open>\<open>f"DeepFace processing error: {e}"\<close>\<close>
  | Enrolled  \<comment> \<open>\<open>"User successfully enrolled and account created!"\<close>\<close>
  | DBInsertError  \<comment> \<open>\<open>f"Database insertion error: {e}"\<close>\<close>
  | InsufficientFunds  \<comment> \<open>\<open>"Insufficient funds."\<close>\<close>
  | InvalidTransactionType  \<comment> \<open>\<open>"Invalid transaction type."\<close>\<close>
  | TxnSuccessful string pyfloat
      \<comment> \<open>\<open>f"{transaction_type} successful. New balance: ${new_balance:,.2f}"\<close>\<close>

section \<open>update_balance\<close>

definition select_balance :: "user list \<Rightarrow> string \<Rightarrow> pyfloat option" where
  \<comment> \<open>\<open>SELECT balance FROM users WHERE account_no=?\<close>, then \<open>fetchone()\<close>\<close>
  "select_balance us acc = map_option balance (find (\<lambda>u. account_no u = acc) us)"

definition sql_update_balance :: "user list \<Rightarrow> string \<Rightarrow> pyfloat \<Rightarrow> user list" where
  \<comment> \<open>\<open>UPDATE users SET balance=? WHERE account_no=?\<close>\<close>
  "sql_update_balance us acc new_balance =
     map (\<lambda>u. if account_no u = acc then u\<lparr>balance := new_balance\<rparr> else u) us"

definition commit_balance ::
  "'img state \<Rightarrow> string \<Rightarrow> pyfloat \<Rightarrow> string \<Rightarrow> (bool \<times> message) result \<times> 'img state" where
  \<comment> \<open>Lines 133 to 140. SQLite binds a NaN as NULL, which the column's NOT NULL refuses;
      \<open>st.session_state.user_account['balance'] = ...\<close> raises when no account is loaded.\<close>
  "commit_balance s acc new_balance transaction_type =
     (if new_balance = NaN then (Raised IntegrityError, s)
      else let s1 = s\<lparr>users := sql_update_balance (users s) acc new_balance\<rparr>
           in case user_account s1 of
                None \<Rightarrow> (Raised TypeError, s1)
              | Some a \<Rightarrow>
                  (Returned (True, TxnSuccessful transaction_type new_balance),
                   s1\<lparr>user_account := Some (a\<lparr>balance := new_balance\<rparr>)\<rparr>))"

definition update_balance ::
  "'img state \<Rightarrow> string \<Rightarrow> pyfloat \<Rightarrow> string \<Rightarrow> (bool \<times> message) result \<times> 'img state" where
  \<comment> \<open>\<open>c.fetchone()[0]\<close> raises TypeError when no row has the account number.\<close>
  "update_balance s acc amount transaction_type =
     (case select_balance (users s) acc of
        None \<Rightarrow> (Raised TypeError, s)
      | Some current_balance \<Rightarrow>
          if transaction_type = ''Withdrawal'' then
            if fless current_balance amount then (Returned (False, InsufficientFunds), s)
            else commit_balance s acc (fsub current_balance amount) transaction_type
          else if transaction_type = ''Deposit'' then
            commit_balance s acc (fadd current_balance amount) transaction_type
          else (Returned (False, InvalidTransactionType), s))"

section \<open>External collaborators\<close>

text \<open>
  PIL and DeepFace are libraries outside the repository; the handlers are parameterised by
  what they answer for an image: whether \<open>Image.open\<close> reads it and \<open>save\<close> can encode it,
  what \<open>DeepFace.extract_faces\<close> does with \<open>enforce_detection=True\<close>, and what
  \<open>DeepFace.find\<close> returns for a probe and the files of the searched directory (a list of
  data frames, each a list of rows \<open>(identity, distance)\<close>) unless it raises. The host
  answers whether a file can be created at a path that leads out of the two directories.
\<close>

datatype detection = FaceFound | NoFaceValueError | OtherException

datatype find_result = FindRaises | Results "(string \<times> rat) list list"

record 'img provider =
  decodes :: "'img \<Rightarrow> bool"
  extract_faces :: "'img \<Rightarrow> detection"
  deepface_find :: "'img \<Rightarrow> (string \<times> 'img) list \<Rightarrow> find_result"
  can_create :: "string \<Rightarrow> bool"

section \<open>Paths\<close>

definition ENROLLMENT_DIR :: string where
  "ENROLLMENT_DIR = ''enrolled_faces''"

definition TEMP_DB_DIR :: string where
  "TEMP_DB_DIR = ''temp_clean_db''"

definition path_join :: "string \<Rightarrow> string \<Rightarrow> string" where
  \<comment> \<open>\<open>os.path.join\<close> of two components (POSIX)\<close>
  "path_join a b =
     (if b \<noteq> [] \<and> hd b = CHR ''/'' then b
      else if a = [] \<or> last a = CHR ''/'' then a @ b
      else a @ ''/'' @ b)"

definition basename :: "string \<Rightarrow> string" where
  \<comment> \<open>\<open>os.path.basename\<close>: what follows the last \<open>/\<close>\<close>
  "basename p = rev (takeWhile (\<lambda>c. c \<noteq> CHR ''/'') (rev p))"

fun split_slash :: "string \<Rightarrow> string list" where
  \<comment> \<open>\<open>path.split('/')\<close>\<close>
  "split_slash [] = [[]]"
| "split_slash (c # cs) =
     (if c = CHR ''/'' then [] # split_slash cs
      else (case split_slash cs of [] \<Rightarrow> [[c]] | w # ws \<Rightarrow> (c # w) # ws))"

fun join_slash :: "string list \<Rightarrow> string" where
  \<comment> \<open>\<open>'/'.join(comps)\<close>\<close>
  "join_slash [] = []"
| "join_slash [w] = w"
| "join_slash (w # ws) = w @ ''/'' @ join_slash ws"

definition norm_step :: "nat \<Rightarrow> string list \<Rightarrow> string \<Rightarrow> string list" where
  \<comment> \<open>the body of the loop of \<open>posixpath.normpath\<close> over the components\<close>
  "norm_step initial_slashes new_comps c =
     (if c = [] \<or> c = ''.'' then new_comps
      else if c \<noteq> ''..'' \<or> (initial_slashes = 0 \<and> new_comps = [])
              \<or> (new_comps \<noteq> [] \<and> last new_comps = ''..'')
           then new_comps @ [c]
      else if new_comps \<noteq> [] then butlast new_comps
      else new_comps)"

definition normpath :: "string \<Rightarrow> string" where
  \<comment> \<open>\<open>os.path.normpath\<close> (POSIX)\<close>
  "normpath path =
     (if path = [] then ''.''
      else let initial_slashes =
                 (if take 1 path \<noteq> ''/'' then 0
                  else if take 2 path = ''//'' \<and> take 3 path \<noteq> ''///'' then 2 else (1::nat));
               comps = foldl (norm_step initial_slashes) [] (split_slash path);
               p = replicate initial_slashes CHR ''/'' @ join_slash comps
           in if p = [] then ''.'' else p)"

section \<open>Files\<close>

text \<open>
  Where a relative or absolute path leads, component by component from the working
  directory, as the operating system resolves it: \<open>.\<close> and an empty component stay, \<open>..\<close>
  goes up, and a flat directory has no directory to enter. A directory other than the two
  of the program is the host's; a path that has left for one is taken to stay there.
\<close>

datatype place = Cwd | Store | Scratch | Host

datatype location = InStore string | InScratch string | Elsewhere string | Nowhere

definition enter :: "bool \<Rightarrow> place \<Rightarrow> string \<Rightarrow> place option" where
  \<comment> \<open>one directory component \<open>c\<close> from the directory \<open>d\<close>; \<open>None\<close> when there is no such
      directory\<close>
  "enter scratch_exists d c =
     (if c = [] \<or> c = ''.'' then Some d
      else case d of
             Cwd \<Rightarrow>
               if c = ''..'' then Some Host
               else if c = ENROLLMENT_DIR then Some Store
               else if c = TEMP_DB_DIR then (if scratch_exists then Some Scratch else None)
               else Some Host
           | Store \<Rightarrow> if c = ''..'' then Some Cwd else None
           | Scratch \<Rightarrow> if c = ''..'' then Some Cwd else None
           | Host \<Rightarrow> Some Host)"

fun walk :: "bool \<Rightarrow> place \<Rightarrow> string list \<Rightarrow> place option" where
  "walk scratch_exists d [] = Some d"
| "walk scratch_exists d (c # cs) =
     (case enter scratch_exists d c of
        None \<Rightarrow> None
      | Some d' \<Rightarrow> walk scratch_exists d' cs)"

definition locate :: "bool \<Rightarrow> string \<Rightarrow> location" where
  \<comment> \<open>the file a path names; \<open>Nowhere\<close> when a directory on the way is missing or the last
      component names a directory\<close>
  "locate scratch_exists path =
     (let comps = split_slash path; file_name = last comps
      in if file_name = [] \<or> file_name = ''.'' \<or> file_name = ''..'' then Nowhere
         else case walk scratch_exists (if take 1 path = ''/'' then Host else Cwd)
                     (butlast comps) of
                None \<Rightarrow> Nowhere
              | Some Store \<Rightarrow> InStore file_name
              | Some Scratch \<Rightarrow> InScratch file_name
              | Some Cwd \<Rightarrow> Elsewhere (normpath path)
              | Some Host \<Rightarrow> Elsewhere (normpath path))"

definition image_save :: "'img provider \<Rightarrow> 'img state \<Rightarrow> 'img \<Rightarrow> string \<Rightarrow> 'img state option" where
  \<comment> \<open>\<open>Image.open(io.BytesIO(image_bytes))\<close> and \<open>image.save(path)\<close>; \<open>None\<close> when one of
      them raises\<close>
  "image_save P s img path =
     (if \<not> decodes P img then None
      else case locate (temp_clean_db s \<noteq> None) path of
             Nowhere \<Rightarrow> None
           | InStore f \<Rightarrow> Some (s\<lparr>enrolled_faces := AList.update f img (enrolled_faces s)\<rparr>)
           | InScratch f \<Rightarrow>
               Some (s\<lparr>temp_clean_db := map_option (AList.update f img) (temp_clean_db s)\<rparr>)
           | Elsewhere p \<Rightarrow>
               if can_create P path
               then Some (s\<lparr>other_files := AList.update p img (other_files s)\<rparr>)
               else None)"

definition os_remove :: "'img state \<Rightarrow> string \<Rightarrow> 'img state" where
  \<comment> \<open>\<open>os.remove(path)\<close> of a file that exists: \<open>enroll_user\<close> removes the file it has
      saved\<close>
  "os_remove s path =
     (case locate (temp_clean_db s \<noteq> None) path of
        Nowhere \<Rightarrow> s
      | InStore f \<Rightarrow> s\<lparr>enrolled_faces := AList.delete f (enrolled_faces s)\<rparr>
      | InScratch f \<Rightarrow> s\<lparr>temp_clean_db := map_option (AList.delete f) (temp_clean_db s)\<rparr>
      | Elsewhere p \<Rightarrow> s\<lparr>other_files := AList.delete p (other_files s)\<rparr>)"


section \<open>enroll_user\<close>

definition enroll_user ::
  "'img provider \<Rightarrow> 'img state \<Rightarrow> string \<Rightarrow> string \<Rightarrow> pyfloat \<Rightarrow> 'img
     \<Rightarrow> (bool \<times> message) \<times> 'img state" where
  \<comment> \<open>The INSERT fails on a row with the same \<open>enrolled_face_path\<close> (UNIQUE) and on a NaN
      deposit (bound as NULL, against NOT NULL); the primary key is free by the first check.\<close>
  "enroll_user P s acc nm initial_deposit image_bytes =
     (if \<exists>u\<in>set (users s). account_no u = acc then ((False, AccountExists), s)
      else let user_file_name = acc @ ''.jpg'';
               file_path = path_join ENROLLMENT_DIR user_file_name
           in case image_save P s image_bytes file_path of
                None \<Rightarrow> ((False, ImageSaveError), s)
              | Some s1 \<Rightarrow>
                  (case extract_faces P image_bytes of
                     NoFaceValueError \<Rightarrow> ((False, NoFaceDetected), os_remove s1 file_path)
                   | OtherException \<Rightarrow> ((False, DeepFaceError), os_remove s1 file_path)
                   | FaceFound \<Rightarrow>
                       if (\<exists>u\<in>set (users s1). enrolled_face_path u = file_path)
                          \<or> initial_deposit = NaN
                       then ((False, DBInsertError), os_remove s1 file_path)
                       else ((True, Enrolled),
                             s1\<lparr>users := users s1 @
                               [\<lparr>account_no = acc, name = nm, balance = initial_deposit,
                                 enrolled_face_path = file_path\<rparr>]\<rparr>)))"

section \<open>show_login_view\<close>

text \<open>What the view shows.\<close>

datatype ui =
    Nothing
  | AuthSuccessful string  \<comment> \<open>\<open>"Authentication Successful! Welcome, {name}!"\<close>, then \<open>st.rerun()\<close>\<close>
  | AuthFailed "string option"
      \<comment> \<open>\<open>"Authentication Failed. Face not recognized or user data not linked correctly."\<close>,
          and the debug path when there is one\<close>
  | VerificationError  \<comment> \<open>\<open>"Error during verification. ..."\<close>\<close>
  | CaptureWarning  \<comment> \<open>\<open>"Please capture your face image ..."\<close>\<close>

definition PROBE_NAME :: string where
  \<comment> \<open>\<open>os.path.basename(PROBE_FILE)\<close>, with \<open>PROBE_FILE = ENROLLMENT_DIR/temp_auth_file.jpg\<close>\<close>
  "PROBE_NAME = ''temp_auth_file.jpg''"

definition save_probe :: "'img state \<Rightarrow> 'img \<Rightarrow> 'img state" where
  \<comment> \<open>\<open>image.save(PROBE_FILE)\<close>\<close>
  "save_probe s img = s\<lparr>enrolled_faces := AList.update PROBE_NAME img (enrolled_faces s)\<rparr>"

definition copy_files :: "(string \<times> 'img) list \<Rightarrow> (string \<times> 'img) list \<Rightarrow> (string \<times> 'img) list" where
  \<comment> \<open>the loop of \<open>shutil.copy\<close> into the directory \<open>dst\<close>\<close>
  "copy_files files dst = fold (\<lambda>(file_name, img). AList.update file_name img) files dst"

definition make_clean_db :: "'img state \<Rightarrow> 'img state" where
  \<comment> \<open>\<open>os.makedirs(TEMP_DB_DIR, exist_ok=True)\<close>, then the copy of every file of
      \<open>ENROLLMENT_DIR\<close> but the probe\<close>
  "make_clean_db s =
     (let existing = (case temp_clean_db s of None \<Rightarrow> [] | Some d \<Rightarrow> d);
          enrolled_files = filter (\<lambda>(f, img). f \<noteq> PROBE_NAME) (enrolled_faces s)
      in s\<lparr>temp_clean_db := Some (copy_files enrolled_files existing)\<rparr>)"

definition match_path :: "string \<Rightarrow> string" where
  \<comment> \<open>lines 222 to 226\<close>
  "match_path best_match_path_raw =
     normpath (path_join ENROLLMENT_DIR (basename best_match_path_raw))"

definition select_by_path :: "user list \<Rightarrow> string \<Rightarrow> user option" where
  \<comment> \<open>\<open>SELECT * FROM users WHERE enrolled_face_path=?\<close>, then \<open>fetchone()\<close>\<close>
  "select_by_path us p = find (\<lambda>u. enrolled_face_path u = p) us"

definition process_results :: "user list \<Rightarrow> (string \<times> rat) list list \<Rightarrow> string option \<times> user option" where
  \<comment> \<open>lines 210 to 234: the debug path and \<open>user_data\<close>\<close>
  "process_results us results =
     (case results of
        (row # rows) # frames \<Rightarrow>
          (Some (match_path (fst row)), select_by_path us (match_path (fst row)))
      | _ \<Rightarrow> (None, None))"

definition searched_files :: "'img state \<Rightarrow> (string \<times> 'img) list" where
  \<comment> \<open>the files of \<open>TEMP_DB_DIR\<close>, the \<open>db_path\<close> of the search\<close>
  "searched_files s = (case temp_clean_db s of None \<Rightarrow> [] | Some d \<Rightarrow> d)"

definition verify :: "'img provider \<Rightarrow> 'img state \<Rightarrow> 'img \<Rightarrow> ui \<times> 'img state" where
  \<comment> \<open>the \<open>try\<close> block with its \<open>except Exception\<close> clause; \<open>img\<close> is the image saved
      as \<open>PROBE_FILE\<close>\<close>
  "verify P s img =
     (case deepface_find P img (searched_files s) of
        FindRaises \<Rightarrow> (VerificationError, s)
      | Results results \<Rightarrow>
          (case process_results (users s) results of
             (dbg, Some user_data) \<Rightarrow>
               (AuthSuccessful (name user_data),
                s\<lparr>debug_match_path := dbg, logged_in := True, user_account := Some user_data\<rparr>)
           | (dbg, None) \<Rightarrow> (AuthFailed dbg, s\<lparr>debug_match_path := dbg\<rparr>)))"

definition cleanup :: "'img state \<Rightarrow> 'img state" where
  \<comment> \<open>the \<open>finally\<close> clause\<close>
  "cleanup s =
     s\<lparr>enrolled_faces := AList.delete PROBE_NAME (enrolled_faces s), temp_clean_db := None\<rparr>"

definition show_login_view_steps ::
  "'img provider \<Rightarrow> 'img state \<Rightarrow> 'img option \<Rightarrow> bool \<Rightarrow> ui result \<times> 'img state list" where
  \<comment> \<open>What the view shows, and the successive states of the call: the state it starts in,
      then the states after saving the probe, after filling the scratch directory, after
      resetting the debug path, after the \<open>try\<close> block and after the \<open>finally\<close> clause, which
      is the state it leaves. \<open>Image.open\<close> stands before the \<open>try\<close>: its failure leaves
      the view at once.\<close>
  "show_login_view_steps P s captured_image auth_button_pressed =
     (if auth_button_pressed then
        (case captured_image of
           None \<Rightarrow> (Returned CaptureWarning, [s])
         | Some img \<Rightarrow>
             if \<not> decodes P img then (Raised UnidentifiedImageError, [s])
             else let s1 = save_probe s img;
                      s2 = make_clean_db s1;
                      s3 = s2\<lparr>debug_match_path := None\<rparr>;
                      r = verify P s3 img
                  in (Returned (fst r), [s, s1, s2, s3, snd r, cleanup (snd r)]))
      else (Returned Nothing, [s]))"

definition show_login_view ::
  "'img provider \<Rightarrow> 'img state \<Rightarrow> 'img option \<Rightarrow> bool \<Rightarrow> ui result \<times> 'img state" where
  "show_login_view P s captured_image auth_button_pressed =
     (let r = show_login_view_steps P s captured_image auth_button_pressed
      in (fst r, last (snd r)))"

section \<open>Sequences of operations\<close>

fun nonneg :: "pyfloat \<Rightarrow> bool" where
  \<comment> \<open>Python's \<open>b >= 0\<close>\<close>
  "nonneg (Fin x) = (0 \<le> x)"
| "nonneg PInf = True"
| "nonneg NInf = False"
| "nonneg NaN = False"

text \<open>
  \<open>main\<close> runs \<open>init_db\<close>, which creates the directory and the table when they are
  missing, and initialises the session state; on a fresh installation this is the state
  below.
\<close>

definition init_state :: "'img state" where
  "init_state = \<lparr>users = [], enrolled_faces = [], temp_clean_db = None, other_files = [],
                  logged_in = False, user_account = None, debug_match_path = None\<rparr>"

text \<open>
  The states that sequences of operations produce from there: enrollments (\<open>enroll_user\<close>)
  with a non-negative initial deposit, transactions (\<open>update_balance\<close>) of any kind on any
  account number, where the amount of a deposit is non-negative and the amount of a
  withdrawal is any float, logins, log-outs (lines 334 and 335) and new browser sessions,
  which start with an empty session state on the table and files as they are.
\<close>

inductive reachable :: "'img provider \<Rightarrow> 'img state \<Rightarrow> bool" for P :: "'img provider" where
  start: "reachable P init_state"
| new_session:
    "reachable P s \<Longrightarrow>
     reachable P (s\<lparr>logged_in := False, user_account := None, debug_match_path := None\<rparr>)"
| log_out:
    "reachable P s \<Longrightarrow> reachable P (s\<lparr>logged_in := False, user_account := None\<rparr>)"
| enrollment:
    "reachable P s \<Longrightarrow> nonneg initial_deposit \<Longrightarrow>
     reachable P (snd (enroll_user P s acc nm initial_deposit image_bytes))"
| login:
    "reachable P s \<Longrightarrow>
     reachable P (snd (show_login_view P s captured_image auth_button_pressed))"
| transaction:
    "reachable P s \<Longrightarrow> (transaction_type = ''Deposit'' \<longrightarrow> nonneg amount) \<Longrightarrow>
     reachable P (snd (update_balance s acc amount transaction_type))"

section \<open>The resolver of the specification and a search by threshold\<close>

datatype decision = MATCH string | NO_MATCH | AMBIGUOUS

definition resolve_spec :: "rat \<Rightarrow> rat \<Rightarrow> (string \<times> rat) list \<Rightarrow> decision" where
  \<comment> \<open>Modelled from the spec: the tie-break and threshold policy of the Identity Resolver
      (section 4.1), which the repository does not implement. The candidates are the
      enrolled account numbers with their similarity scores: the best is a MATCH only if
      its score crosses the acceptance threshold and its gap to the second best exceeds
      the ambiguity margin; below the threshold NO_MATCH; otherwise AMBIGUOUS.\<close>
  "resolve_spec threshold margin candidates =
     (case rev (sort_key snd candidates) of
        [] \<Rightarrow> NO_MATCH
      | (best, score) # others \<Rightarrow>
          if score < threshold then NO_MATCH
          else (case others of
                  [] \<Rightarrow> MATCH best
                | (second, score2) # _ \<Rightarrow>
                    if margin < score - score2 then MATCH best else AMBIGUOUS))"

definition threshold_find ::
  "('img \<Rightarrow> 'img \<Rightarrow> rat) \<Rightarrow> rat \<Rightarrow> 'img \<Rightarrow> (string \<times> 'img) list \<Rightarrow> find_result" where
  \<comment> \<open>Modelled from the spec: the search of the Embedding Provider (\<open>DeepFace.find\<close>, of a
      library outside the repository), as section 4.1 has it: the distance of the probe to
      every file of the searched directory, the files within the threshold ranked by
      distance, in one data frame.\<close>
  "threshold_find distance threshold probe db =
     Results [sort_key snd (filter (\<lambda>row. snd row \<le> threshold)
                (map (\<lambda>(f, img). (path_join TEMP_DB_DIR f, distance probe img)) db))]"


section \<open>A bank of two accounts\<close>

text \<open>
  Concrete values for the examples below. Images are numbered: 1 and 2 are the enrolled
  faces of Alice and Bob, 7 is a capture of a face at distance \<open>0.30\<close> of the first and
  \<open>0.31\<close> of the second, 0 is an image without a face.
\<close>

definition alice :: user where
  "alice = \<lparr>account_no = ''1001'', name = ''Alice'', balance = Fin 100,
            enrolled_face_path = ''enrolled_faces/1001.jpg''\<rparr>"

definition bob :: user where
  "bob = \<lparr>account_no = ''1002'', name = ''Bob'', balance = Fin 250,
          enrolled_face_path = ''enrolled_faces/1002.jpg''\<rparr>"

definition bank :: "nat state" where
  "bank = \<lparr>users = [alice, bob], enrolled_faces = [(''1001.jpg'', 1), (''1002.jpg'', 2)],
           temp_clean_db = None, other_files = [], logged_in = False,
           user_account = None, debug_match_path = None\<rparr>"

definition bank_alice :: "nat state" where
  \<comment> \<open>the bank once Alice has logged in\<close>
  "bank_alice = bank\<lparr>logged_in := True, user_account := Some alice\<rparr>"

definition face_distance :: "nat \<Rightarrow> nat \<Rightarrow> rat" where
  "face_distance probe img = (if img = 1 then 30 / 100 else if img = 2 then 31 / 100 else 1)"

definition camera :: "nat provider" where
  "camera = \<lparr>decodes = (\<lambda>img. True),
             extract_faces = (\<lambda>img. if img = 0 then NoFaceValueError else FaceFound),
             deepface_find = threshold_find face_distance (40 / 100),
             can_create = (\<lambda>path. True)\<rparr>"

definition after_enrollment :: "nat state" where
  \<comment> \<open>a fresh installation after Alice's enrollment with a deposit of 100.00\<close>
  "after_enrollment = snd (enroll_user camera init_state ''1001'' ''Alice'' (Fin 100) 1)"

definition after_login :: "nat state" where
  "after_login = snd (show_login_view camera after_enrollment (Some 7) True)"

definition after_withdrawal :: "nat state" where
  "after_withdrawal = snd (update_balance after_login ''1001'' (Fin 100) ''Withdrawal'')"

definition ten_ten :: pyfloat where
  \<comment> \<open>the float \<open>10.10\<close>\<close>
  "ten_ten = to_double (101 / 10)"

definition twenty_twenty :: pyfloat where
  \<comment> \<open>the float \<open>20.20\<close>\<close>
  "twenty_twenty = to_double (202 / 10)"

definition carol :: user where
  "carol = \<lparr>account_no = ''1003'', name = ''Carol'', balance = ten_ten,
            enrolled_face_path = ''enrolled_faces/1003.jpg''\<rparr>"

definition bank_carol :: "nat state" where
  \<comment> \<open>a bank where Carol, with a balance of 10.10, has logged in\<close>
  "bank_carol = \<lparr>users = [carol], enrolled_faces = [(''1003.jpg'', 3)],
                 temp_clean_db = None, other_files = [], logged_in = True,
                 user_account = Some carol, debug_match_path = None\<rparr>"


section \<open>Rounding\<close>

lemma max_double_big: "2 ^ 64 \<le> max_double"
proof -
  have "(2::rat) ^ 64 \<le> 2 ^ 971"
    by (rule power_increasing) simp_all
  also have "\<dots> \<le> (2 ^ 53 - 1) * 2 ^ 971"
    by simp
  finally show ?thesis by (simp add: max_double_def)
qed

lemma to_double_finite: "\<bar>round_double q\<bar> \<le> 2 ^ 64 \<Longrightarrow> to_double q = Fin (round_double q)"
  using max_double_big by (auto simp: to_double_def Let_def)

lemma to_double_eq: "round_double q = r \<Longrightarrow> \<bar>r\<bar> \<le> 2 ^ 64 \<Longrightarrow> to_double q = Fin r"
  by (simp add: to_double_finite)

lemma round_half_even_of_int: "round_half_even (of_int m) = m"
  by (simp add: round_half_even_def)

lemma bitlen_53:
  assumes "0 < m" and "m < 2 ^ 53"
  shows "1 \<le> bitlen m" and "bitlen m \<le> 53"
proof -
  show "1 \<le> bitlen m"
    using assms(1) by (simp add: bitlen_alt_def)
  have "2 ^ nat (bitlen m - 1) \<le> m"
    using bitlen_bounds [OF assms(1)] by simp
  with assms(2) have "(2::int) ^ nat (bitlen m - 1) < 2 ^ 53"
    by linarith
  then have "nat (bitlen m - 1) < 53"
    by (rule power_less_imp_less_exp [rotated]) simp
  then show "bitlen m \<le> 53"
    by linarith
qed

lemma ilog2_of_int:
  assumes "0 < m"
  shows "ilog2 (of_int m) = bitlen m - 1"
proof -
  have b1: "bitlen 1 = 1"
    by (simp add: bitlen_alt_def)
  have k: "0 \<le> bitlen m - 1"
    using assms by (simp add: bitlen_alt_def)
  have "2 ^ nat (bitlen m - 1) \<le> m"
    using bitlen_bounds [OF assms] by simp
  then have "(of_int (2 ^ nat (bitlen m - 1)) :: rat) \<le> of_int m"
    by (simp only: of_int_le_iff)
  then have "pow2 (bitlen m - 1) \<le> of_int m"
    using k by (simp add: pow2_def)
  then show ?thesis
    by (simp add: ilog2_def quotient_of_int b1)
qed

lemma round_double_pos_int:
  assumes "0 < m" and "m < 2 ^ 53"
  shows "round_double (of_int m) = of_int m"
proof -
  define k where "k = nat (53 - bitlen m)"
  have ne: "(of_int m :: rat) \<noteq> 0" and sg: "sgn (of_int m :: rat) = 1"
    using assms(1) by simp_all
  have e: "max (ilog2 \<bar>of_int m\<bar> - 52) (- 1074) = - int k"
    using assms bitlen_53 [OF assms] by (simp add: ilog2_of_int k_def)
  have p: "pow2 (- int k) = 1 / 2 ^ k"
    by (simp add: pow2_def)
  have "\<bar>of_int m :: rat\<bar> / pow2 (- int k) = of_int (m * 2 ^ k)"
    using assms(1) by (simp add: p)
  then have r: "round_half_even (\<bar>of_int m\<bar> / pow2 (- int k)) = m * 2 ^ k"
    by (simp only: round_half_even_of_int)
  have "round_double (of_int m)
          = sgn (of_int m) * of_int (round_half_even (\<bar>of_int m\<bar> / pow2 (- int k)))
              * pow2 (- int k)"
    using ne by (simp only: round_double_def Let_def e if_False)
  also have "\<dots> = 1 * of_int (m * 2 ^ k) * pow2 (- int k)"
    by (simp only: r sg)
  also have "\<dots> = of_int (m * 2 ^ k) * (1 / 2 ^ k)"
    by (simp only: p mult_1)
  also have "\<dots> = of_int m"
    by simp
  finally show ?thesis .
qed

lemma round_double_minus: "round_double (- q) = - round_double q"
  by (simp add: round_double_def Let_def)

lemma round_double_of_int:
  assumes "\<bar>n\<bar> < 2 ^ 53"
  shows "round_double (of_int n) = of_int n"
proof -
  consider "n = 0" | "0 < n" | "n < 0" by linarith
  then show ?thesis
  proof cases
    case 1
    then show ?thesis by (simp add: round_double_def)
  next
    case 2
    with assms show ?thesis by (simp add: round_double_pos_int)
  next
    case 3
    with assms have "round_double (of_int (- n)) = of_int (- n)"
      by (intro round_double_pos_int) simp_all
    then show ?thesis
      by (simp add: round_double_minus)
  qed
qed

lemma to_double_of_int:
  assumes "\<bar>n\<bar> < 2 ^ 53"
  shows "to_double (of_int n) = Fin (of_int n)"
proof -
  have "\<bar>of_int n :: rat\<bar> = of_int \<bar>n\<bar>"
    by simp
  also have "\<dots> \<le> of_int (2 ^ 64)"
    using assms by (simp only: of_int_le_iff) simp
  finally have "\<bar>of_int n :: rat\<bar> \<le> 2 ^ 64"
    by simp
  then show ?thesis
    using assms by (simp add: to_double_finite round_double_of_int)
qed

lemma to_double_50: "to_double 50 = Fin 50"
  using to_double_of_int [of 50] by simp

lemma to_double_0: "to_double 0 = Fin 0"
  using to_double_of_int [of 0] by simp


section \<open>Transactions\<close>

lemma select_balance_bank: "select_balance (users bank_alice) ''1001'' = Some (Fin 100)"
  by (simp add: select_balance_def bank_alice_def bank_def alice_def bob_def)

text \<open>
  C2. A withdrawal from an existing account of an amount strictly greater than the balance
  returns the failure \<open>Insufficient funds.\<close> and leaves the whole state, the stored balance
  in it, as it was.
\<close>

theorem withdrawal_insufficient_funds:
  assumes "select_balance (users s) acc = Some current_balance"
    and "fless current_balance amount"
  shows "update_balance s acc amount ''Withdrawal'' = (Returned (False, InsufficientFunds), s)"
  using assms by (simp add: update_balance_def)

theorem withdrawal_insufficient_funds_witness:
  "select_balance (users bank_alice) ''1001'' = Some (Fin 100) \<and> fless (Fin 100) (Fin 150)
   \<and> update_balance bank_alice ''1001'' (Fin 150) ''Withdrawal''
       = (Returned (False, InsufficientFunds), bank_alice)"
proof -
  have h: "fless (Fin 100) (Fin 150)" by simp
  show ?thesis
    using withdrawal_insufficient_funds [OF select_balance_bank h] select_balance_bank h
    by simp
qed

text \<open>
  C10. For an existing account, a transaction type that is neither \<open>'Withdrawal'\<close> nor
  \<open>'Deposit'\<close> returns the failure \<open>Invalid transaction type.\<close> and leaves the state as it
  was.
\<close>

theorem invalid_transaction_type:
  assumes "select_balance (users s) acc = Some current_balance"
    and "transaction_type \<noteq> ''Withdrawal''" and "transaction_type \<noteq> ''Deposit''"
  shows "update_balance s acc amount transaction_type
           = (Returned (False, InvalidTransactionType), s)"
  using assms by (simp add: update_balance_def)

theorem invalid_transaction_type_witness:
  "select_balance (users bank_alice) ''1001'' = Some (Fin 100)
   \<and> ''Transfer'' \<noteq> ''Withdrawal'' \<and> ''Transfer'' \<noteq> ''Deposit''
   \<and> update_balance bank_alice ''1001'' (Fin 20) ''Transfer''
       = (Returned (False, InvalidTransactionType), bank_alice)"
proof -
  have h1: "''Transfer'' \<noteq> ''Withdrawal''" and h2: "''Transfer'' \<noteq> ''Deposit''" by simp_all
  show ?thesis
    using invalid_transaction_type [OF select_balance_bank h1 h2] select_balance_bank
    by simp
qed

text \<open>
  C5. An account number with no row in the table: \<open>c.fetchone()\<close> is \<open>None\<close> and
  \<open>None[0]\<close> raises TypeError. The call returns no error value; the state is unchanged.
\<close>

theorem update_balance_unknown_account_raises:
  "update_balance bank_alice ''9999'' (Fin 10) ''Deposit'' = (Raised TypeError, bank_alice)"
  by (simp add: update_balance_def select_balance_def bank_alice_def bank_def alice_def bob_def)


section \<open>Amounts\<close>

lemma select_balance_updated:
  "select_balance us acc = Some x
   \<Longrightarrow> select_balance (sql_update_balance us acc new_balance) acc = Some new_balance"
  by (induction us) (auto simp: select_balance_def sql_update_balance_def)

lemma deposit_finite:
  assumes "select_balance (users s) acc = Some (Fin b)" and "user_account s = Some a"
    and "to_double (b + x) = Fin y"
  shows "update_balance s acc (Fin x) ''Deposit''
           = (Returned (True, TxnSuccessful ''Deposit'' (Fin y)),
              s\<lparr>users := sql_update_balance (users s) acc (Fin y),
                user_account := Some (a\<lparr>balance := Fin y\<rparr>)\<rparr>)"
  using assms by (simp add: update_balance_def commit_balance_def)

lemma withdrawal_finite:
  assumes "select_balance (users s) acc = Some (Fin b)" and "user_account s = Some a"
    and "x \<le> b" and "to_double (b - x) = Fin y"
  shows "update_balance s acc (Fin x) ''Withdrawal''
           = (Returned (True, TxnSuccessful ''Withdrawal'' (Fin y)),
              s\<lparr>users := sql_update_balance (users s) acc (Fin y),
                user_account := Some (a\<lparr>balance := Fin y\<rparr>)\<rparr>)"
  using assms by (simp add: update_balance_def commit_balance_def fsub_def)

lemma to_double_not_NaN: "to_double q \<noteq> NaN"
  by (simp add: to_double_def Let_def)

lemma to_double_150: "to_double 150 = Fin 150"
  using to_double_of_int [of 150] by simp

text \<open>
  C6, as the code has it. \<open>update_balance\<close> does not look at the sign of the amount and has
  no failure for it. For an existing account with a finite balance, and an account loaded
  in the session: a deposit of any finite amount, zero and negative ones included,
  succeeds and stores the float sum of balance and amount; a withdrawal of any finite
  amount that is not above the balance, zero and negative ones included, succeeds and
  stores the float difference of balance and amount.
\<close>

theorem amount_sign_is_not_checked:
  assumes "select_balance (users s) acc = Some (Fin b)" and "user_account s = Some a"
  shows "fst (update_balance s acc (Fin x) ''Deposit'')
           = Returned (True, TxnSuccessful ''Deposit'' (to_double (b + x)))
         \<and> select_balance (users (snd (update_balance s acc (Fin x) ''Deposit''))) acc
           = Some (to_double (b + x))
         \<and> (x \<le> b \<longrightarrow>
              fst (update_balance s acc (Fin x) ''Withdrawal'')
                = Returned (True, TxnSuccessful ''Withdrawal'' (to_double (b - x)))
              \<and> select_balance (users (snd (update_balance s acc (Fin x) ''Withdrawal''))) acc
                = Some (to_double (b - x)))"
  using assms
  by (simp add: update_balance_def commit_balance_def fsub_def to_double_not_NaN
      select_balance_updated)

theorem amount_sign_is_not_checked_witness:
  "select_balance (users bank_alice) ''1001'' = Some (Fin 100)
   \<and> user_account bank_alice = Some alice
   \<and> fst (update_balance bank_alice ''1001'' (Fin (- 50)) ''Deposit'')
       = Returned (True, TxnSuccessful ''Deposit'' (Fin 50))
   \<and> select_balance (users (snd (update_balance bank_alice ''1001'' (Fin (- 50)) ''Deposit'')))
       ''1001'' = Some (Fin 50)
   \<and> (- 50 :: rat) \<le> 100
   \<and> fst (update_balance bank_alice ''1001'' (Fin (- 50)) ''Withdrawal'')
       = Returned (True, TxnSuccessful ''Withdrawal'' (Fin 150))
   \<and> select_balance (users (snd (update_balance bank_alice ''1001'' (Fin (- 50)) ''Withdrawal'')))
       ''1001'' = Some (Fin 150)"
proof -
  have h: "user_account bank_alice = Some alice"
    by (simp add: bank_alice_def)
  show ?thesis
    using amount_sign_is_not_checked [OF select_balance_bank h, of "- 50"]
      select_balance_bank h to_double_50 to_double_150
    by simp
qed

text \<open>
  C6, as the claim states it, fails for both kinds: on Alice's balance of \<open>100.00\<close>, a
  deposit of \<open>-50.00\<close> returns success and the stored balance becomes \<open>50.00\<close>, and a
  withdrawal of \<open>-50.00\<close> returns success and the stored balance becomes \<open>150.00\<close>.
\<close>

theorem nonpositive_amount_not_rejected:
  "select_balance (users bank_alice) ''1001'' = Some (Fin 100)
   \<and> update_balance bank_alice ''1001'' (Fin (- 50)) ''Deposit''
       = (Returned (True, TxnSuccessful ''Deposit'' (Fin 50)),
          bank_alice\<lparr>users := [alice\<lparr>balance := Fin 50\<rparr>, bob],
                      user_account := Some (alice\<lparr>balance := Fin 50\<rparr>)\<rparr>)
   \<and> update_balance bank_alice ''1001'' (Fin (- 50)) ''Withdrawal''
       = (Returned (True, TxnSuccessful ''Withdrawal'' (Fin 150)),
          bank_alice\<lparr>users := [alice\<lparr>balance := Fin 150\<rparr>, bob],
                      user_account := Some (alice\<lparr>balance := Fin 150\<rparr>)\<rparr>)"
proof -
  have h: "user_account bank_alice = Some alice"
    by (simp add: bank_alice_def)
  have t: "to_double (100 + - 50) = Fin 50"
    using to_double_50 by simp
  have t': "to_double (100 - - 50) = Fin 150"
    using to_double_150 by simp
  have le: "(- 50 :: rat) \<le> 100"
    by simp
  have u: "sql_update_balance (users bank_alice) ''1001'' new_balance
             = [alice\<lparr>balance := new_balance\<rparr>, bob]" for new_balance
    by (simp add: sql_update_balance_def bank_alice_def bank_def alice_def bob_def)
  show ?thesis
    using deposit_finite [OF select_balance_bank h t]
      withdrawal_finite [OF select_balance_bank h le t'] select_balance_bank
    by (simp add: u)
qed


section \<open>Floating-point balances\<close>

lemma round_10_10: "round_double (101 / 10) = 5685794529555251 / 562949953421312"
  by code_simp

lemma round_20_20: "round_double (202 / 10) = 5685794529555251 / 281474976710656"
  by code_simp

lemma round_sum:
  "round_double (5685794529555251 / 562949953421312 + 5685794529555251 / 281474976710656)
     = 2132172948583219 / 70368744177664"
  by code_simp

lemma round_difference:
  "round_double (2132172948583219 / 70368744177664 - 5685794529555251 / 281474976710656)
     = 2842897264777625 / 281474976710656"
  by code_simp

lemma ten_ten_value: "ten_ten = Fin (5685794529555251 / 562949953421312)"
  unfolding ten_ten_def by (rule to_double_eq [OF round_10_10]) simp

lemma twenty_twenty_value: "twenty_twenty = Fin (5685794529555251 / 281474976710656)"
  unfolding twenty_twenty_def by (rule to_double_eq [OF round_20_20]) simp

lemma to_double_sum:
  "to_double (5685794529555251 / 562949953421312 + 5685794529555251 / 281474976710656)
     = Fin (2132172948583219 / 70368744177664)"
  by (rule to_double_eq [OF round_sum]) simp

lemma to_double_difference:
  "to_double (2132172948583219 / 70368744177664 - 5685794529555251 / 281474976710656)
     = Fin (2842897264777625 / 281474976710656)"
  by (rule to_double_eq [OF round_difference]) simp

text \<open>
  C9, as the claim states it, fails. The float \<open>10.10\<close> is not the decimal \<open>10.10\<close>, and
  on Carol's balance of \<open>10.10\<close> a deposit of \<open>20.20\<close> followed by a withdrawal of \<open>20.20\<close>
  leaves \<open>10.099999999999998\<close>, not the balance of before.
\<close>

theorem deposit_withdrawal_drift:
  "ten_ten \<noteq> Fin (101 / 10)
   \<and> select_balance (users bank_carol) ''1003'' = Some ten_ten
   \<and> select_balance
        (users (snd (update_balance (snd (update_balance bank_carol ''1003'' twenty_twenty ''Deposit''))
                       ''1003'' twenty_twenty ''Withdrawal'')))
        ''1003''
       = Some (Fin (2842897264777625 / 281474976710656))
   \<and> Fin (2842897264777625 / 281474976710656) \<noteq> ten_ten"
proof -
  let ?a = "5685794529555251 / 562949953421312 :: rat"
  let ?b = "5685794529555251 / 281474976710656 :: rat"
  let ?c = "2132172948583219 / 70368744177664 :: rat"
  let ?d = "2842897264777625 / 281474976710656 :: rat"
  have s0: "select_balance (users bank_carol) ''1003'' = Some (Fin ?a)"
    by (simp add: select_balance_def bank_carol_def carol_def ten_ten_value)
  have u0: "user_account bank_carol = Some carol"
    by (simp add: bank_carol_def)
  define s1 where "s1 = snd (update_balance bank_carol ''1003'' (Fin ?b) ''Deposit'')"
  have d: "update_balance bank_carol ''1003'' (Fin ?b) ''Deposit''
             = (Returned (True, TxnSuccessful ''Deposit'' (Fin ?c)),
                bank_carol\<lparr>users := sql_update_balance (users bank_carol) ''1003'' (Fin ?c),
                            user_account := Some (carol\<lparr>balance := Fin ?c\<rparr>)\<rparr>)"
    using s0 u0 to_double_sum by (rule deposit_finite)
  have s1: "select_balance (users s1) ''1003'' = Some (Fin ?c)"
    using select_balance_updated [OF s0] by (simp add: s1_def d)
  have u1: "user_account s1 = Some (carol\<lparr>balance := Fin ?c\<rparr>)"
    by (simp add: s1_def d)
  have le: "?b \<le> ?c"
    by simp
  have w: "update_balance s1 ''1003'' (Fin ?b) ''Withdrawal''
             = (Returned (True, TxnSuccessful ''Withdrawal'' (Fin ?d)),
                s1\<lparr>users := sql_update_balance (users s1) ''1003'' (Fin ?d),
                    user_account := Some (carol\<lparr>balance := Fin ?c, balance := Fin ?d\<rparr>)\<rparr>)"
    using s1 u1 le to_double_difference by (rule withdrawal_finite)
  have "select_balance (users (snd (update_balance s1 ''1003'' (Fin ?b) ''Withdrawal''))) ''1003''
          = Some (Fin ?d)"
    using select_balance_updated [OF s1] by (simp add: w)
  then show ?thesis
    using s0 by (simp add: s1_def ten_ten_value twenty_twenty_value)
qed

text \<open>
  C9, as the code has it. Balances and amounts are binary floating-point numbers, and a
  deposit or withdrawal stores the sum or difference rounded to the nearest double. Where
  balance and amount are whole numbers with a sum below \<open>2^53\<close>, no rounding takes place:
  a deposit stores the exact sum, and the withdrawal of the same amount restores the
  balance of before.
\<close>

theorem whole_amounts_are_exact:
  assumes "select_balance (users s) acc = Some (Fin (of_int b))"
    and "user_account s = Some ua"
    and "0 \<le> b" and "0 \<le> a" and "b + a < 2 ^ 53"
  shows "select_balance (users (snd (update_balance s acc (Fin (of_int a)) ''Deposit''))) acc
           = Some (Fin (of_int (b + a)))
         \<and> select_balance
             (users (snd (update_balance (snd (update_balance s acc (Fin (of_int a)) ''Deposit''))
                            acc (Fin (of_int a)) ''Withdrawal'')))
             acc
           = Some (Fin (of_int b))"
proof -
  define s1 where "s1 = snd (update_balance s acc (Fin (of_int a)) ''Deposit'')"
  have "to_double (of_int (b + a)) = Fin (of_int (b + a))"
    using assms(3-5) by (intro to_double_of_int) simp
  then have t1: "to_double (of_int b + of_int a) = Fin (of_int (b + a))"
    by simp
  have d: "update_balance s acc (Fin (of_int a)) ''Deposit''
             = (Returned (True, TxnSuccessful ''Deposit'' (Fin (of_int (b + a)))),
                s\<lparr>users := sql_update_balance (users s) acc (Fin (of_int (b + a))),
                  user_account := Some (ua\<lparr>balance := Fin (of_int (b + a))\<rparr>)\<rparr>)"
    using assms(1,2) t1 by (rule deposit_finite)
  have b1: "select_balance (users s1) acc = Some (Fin (of_int (b + a)))"
    using select_balance_updated [OF assms(1)] by (simp add: s1_def d)
  have u1: "user_account s1 = Some (ua\<lparr>balance := Fin (of_int (b + a))\<rparr>)"
    by (simp add: s1_def d)
  have le: "(of_int a :: rat) \<le> of_int (b + a)"
    using assms(3) by simp
  have "to_double (of_int b) = Fin (of_int b)"
    using assms(3-5) by (intro to_double_of_int) simp
  then have t2: "to_double (of_int (b + a) - of_int a) = Fin (of_int b)"
    by simp
  have w: "update_balance s1 acc (Fin (of_int a)) ''Withdrawal''
             = (Returned (True, TxnSuccessful ''Withdrawal'' (Fin (of_int b))),
                s1\<lparr>users := sql_update_balance (users s1) acc (Fin (of_int b)),
                    user_account :=
                      Some (ua\<lparr>balance := Fin (of_int (b + a)), balance := Fin (of_int b)\<rparr>)\<rparr>)"
    using b1 u1 le t2 by (rule withdrawal_finite)
  have "select_balance (users (snd (update_balance s1 acc (Fin (of_int a)) ''Withdrawal''))) acc
          = Some (Fin (of_int b))"
    using select_balance_updated [OF b1] by (simp add: w)
  with b1 show ?thesis
    by (simp add: s1_def)
qed

theorem whole_amounts_are_exact_witness:
  "select_balance (users bank_alice) ''1001'' = Some (Fin (of_int 100))
   \<and> user_account bank_alice = Some alice
   \<and> (0::int) \<le> 100 \<and> (0::int) \<le> 50 \<and> (100::int) + 50 < 2 ^ 53
   \<and> select_balance (users (snd (update_balance bank_alice ''1001'' (Fin 50) ''Deposit'')))
        ''1001'' = Some (Fin 150)
   \<and> select_balance
        (users (snd (update_balance (snd (update_balance bank_alice ''1001'' (Fin 50) ''Deposit''))
                       ''1001'' (Fin 50) ''Withdrawal'')))
        ''1001'' = Some (Fin 100)"
proof -
  have h1: "select_balance (users bank_alice) ''1001'' = Some (Fin (of_int 100))"
    using select_balance_bank by simp
  have h2: "user_account bank_alice = Some alice"
    by (simp add: bank_alice_def)
  have h3: "(0::int) \<le> 100" and h4: "(0::int) \<le> 50" and h5: "(100::int) + 50 < 2 ^ 53"
    by simp_all
  show ?thesis
    using whole_amounts_are_exact [OF h1 h2 h3 h4 h5] h1 h2
    by simp
qed


section \<open>Balances never go negative\<close>

lemma pow2_pos: "0 < pow2 e"
  by (simp add: pow2_def)

lemma round_half_even_nonneg: "0 \<le> q \<Longrightarrow> 0 \<le> round_half_even q"
  by (simp add: round_half_even_def Let_def)

lemma round_double_nonneg: "0 \<le> q \<Longrightarrow> 0 \<le> round_double q"
proof (cases "q = 0")
  case True
  then show ?thesis by (simp add: round_double_def)
next
  case False
  assume "0 \<le> q"
  with False have q: "0 < q" by simp
  define e where "e = max (ilog2 \<bar>q\<bar> - 52) (- 1074)"
  have "0 \<le> \<bar>q\<bar> / pow2 e"
    using pow2_pos [of e] by simp
  then have "0 \<le> round_half_even (\<bar>q\<bar> / pow2 e)"
    by (rule round_half_even_nonneg)
  then have "0 \<le> of_int (round_half_even (\<bar>q\<bar> / pow2 e)) * pow2 e"
    using pow2_pos [of e] by simp
  then show ?thesis
    using q False by (simp add: round_double_def e_def Let_def)
qed

lemma max_double_pos: "0 < max_double"
  by (simp add: max_double_def)

lemma to_double_nonneg: "0 \<le> q \<Longrightarrow> nonneg (to_double q)"
  using round_double_nonneg [of q] max_double_pos by (simp add: to_double_def Let_def)

lemma fadd_nonneg: "nonneg a \<Longrightarrow> nonneg b \<Longrightarrow> nonneg (fadd a b)"
  by (cases a; cases b) (simp_all add: to_double_nonneg)

lemma fsub_nonneg:
  "nonneg c \<Longrightarrow> \<not> fless c amount \<Longrightarrow> nonneg (fsub c amount) \<or> fsub c amount = NaN"
  by (cases c; cases amount) (simp_all add: fsub_def to_double_nonneg)

lemma select_balance_in:
  "select_balance us acc = Some b \<Longrightarrow> \<exists>u\<in>set us. balance u = b"
  by (auto simp: select_balance_def find_Some_iff)

lemma commit_balance_nonneg:
  assumes "\<forall>u\<in>set (users s). nonneg (balance u)"
    and "nonneg new_balance \<or> new_balance = NaN"
  shows "\<forall>u\<in>set (users (snd (commit_balance s acc new_balance transaction_type))).
           nonneg (balance u)"
  using assms
  by (auto simp: commit_balance_def sql_update_balance_def Let_def split: option.splits)

lemma update_balance_nonneg:
  assumes inv: "\<forall>u\<in>set (users s). nonneg (balance u)"
    and amt: "transaction_type = ''Deposit'' \<longrightarrow> nonneg amount"
  shows "\<forall>u\<in>set (users (snd (update_balance s acc amount transaction_type))).
           nonneg (balance u)"
proof (cases "select_balance (users s) acc")
  case None
  then show ?thesis using inv by (simp add: update_balance_def)
next
  case (Some current_balance)
  then have cur: "nonneg current_balance"
    using inv select_balance_in by blast
  have dep: "transaction_type = ''Deposit''
             \<Longrightarrow> nonneg (fadd current_balance amount) \<or> fadd current_balance amount = NaN"
    using cur amt by (simp add: fadd_nonneg)
  have wd: "\<not> fless current_balance amount
            \<Longrightarrow> nonneg (fsub current_balance amount) \<or> fsub current_balance amount = NaN"
    using cur by (rule fsub_nonneg)
  show ?thesis
    using Some inv commit_balance_nonneg [OF inv dep] commit_balance_nonneg [OF inv wd]
    by (simp add: update_balance_def)
qed

lemma image_save_users: "image_save P s img path = Some s1 \<Longrightarrow> users s1 = users s"
  by (auto simp: image_save_def split: if_splits location.splits)

lemma os_remove_users: "users (os_remove s path) = users s"
  by (simp add: os_remove_def split: location.splits)

lemma enroll_user_nonneg:
  assumes "\<forall>u\<in>set (users s). nonneg (balance u)" and "nonneg initial_deposit"
  shows "\<forall>u\<in>set (users (snd (enroll_user P s acc nm initial_deposit image_bytes))).
           nonneg (balance u)"
proof (cases "image_save P s image_bytes (path_join ENROLLMENT_DIR (acc @ ''.jpg''))")
  case None
  then show ?thesis
    using assms(1) by (simp add: enroll_user_def Let_def)
next
  case (Some s1)
  then have "users s1 = users s"
    by (rule image_save_users)
  then show ?thesis
    using assms Some
    by (simp add: enroll_user_def Let_def os_remove_users split: detection.splits)
qed

lemma verify_users: "users (snd (verify P s img)) = users s"
  by (simp add: verify_def split: find_result.splits prod.splits option.splits)

lemma show_login_view_users:
  "users (snd (show_login_view P s captured_image auth_button_pressed)) = users s"
  by (simp add: show_login_view_def show_login_view_steps_def Let_def cleanup_def verify_users
      make_clean_db_def save_probe_def split: option.splits)

text \<open>
  C7, as the code has it. \<open>enroll_user\<close> and a deposit do not look at the sign of what
  they store. In every state that a sequence of enrollments and transactions produces
  from a fresh installation, where the initial deposits and the amounts of the deposits
  are non-negative (the amounts of the withdrawals may be any), every stored balance is
  non-negative: a finite float from zero on, or the positive infinity of an overflow.
\<close>

theorem balances_never_negative:
  assumes "reachable P s"
  shows "\<forall>u\<in>set (users s). nonneg (balance u)"
  using assms
proof induction
  case start
  show ?case by (simp add: init_state_def)
next
  case (new_session s)
  then show ?case by simp
next
  case (log_out s)
  then show ?case by simp
next
  case (enrollment s initial_deposit acc nm image_bytes)
  then show ?case by (simp add: enroll_user_nonneg)
next
  case (login s captured_image auth_button_pressed)
  then show ?case by (simp add: show_login_view_users)
next
  case (transaction s transaction_type amount acc)
  then show ?case by (simp add: update_balance_nonneg)
qed


theorem balances_never_negative_witness:
  "reachable camera after_withdrawal
   \<and> list_all (\<lambda>u. nonneg (balance u)) (users after_withdrawal)"
proof -
  have d: "nonneg (Fin 100)"
    by simp
  have r1: "reachable camera after_enrollment"
    unfolding after_enrollment_def
    by (rule reachable.enrollment [OF reachable.start d])
  then have r2: "reachable camera after_login"
    unfolding after_login_def by (rule reachable.login)
  have w: "''Withdrawal'' = ''Deposit'' \<longrightarrow> nonneg (Fin 100)"
    by simp
  have r3: "reachable camera after_withdrawal"
    unfolding after_withdrawal_def
    by (rule reachable.transaction [OF r2 w])
  show ?thesis
    using balances_never_negative [OF r3] r3 by (simp add: list_all_iff)
qed

text \<open>
  C7, as the claim states it, fails: on a fresh installation, an enrollment with an
  initial deposit of \<open>-5.00\<close> stores \<open>-5.00\<close>; and once Alice, enrolled with \<open>100.00\<close>, has
  logged in, a deposit of \<open>-150.00\<close> succeeds and leaves her balance at \<open>-50.00\<close>.
\<close>

theorem negative_amounts_are_stored:
  "map balance (users (snd (enroll_user camera init_state ''1003'' ''Carol'' (Fin (- 5)) 3)))
     = [Fin (- 5)]
   \<and> \<not> nonneg (Fin (- 5))
   \<and> select_balance (users after_login) ''1001'' = Some (Fin 100)
   \<and> fst (update_balance after_login ''1001'' (Fin (- 150)) ''Deposit'')
       = Returned (True, TxnSuccessful ''Deposit'' (Fin (- 50)))
   \<and> select_balance (users (snd (update_balance after_login ''1001'' (Fin (- 150)) ''Deposit'')))
        ''1001'' = Some (Fin (- 50))
   \<and> \<not> nonneg (Fin (- 50))"
proof -
  have e: "map balance (users (snd (enroll_user camera init_state ''1003'' ''Carol'' (Fin (- 5)) 3)))
             = [Fin (- 5)]"
    by code_simp
  have b: "select_balance (users after_login) ''1001'' = Some (Fin 100)"
    by code_simp
  have "user_account after_login \<noteq> None"
    by code_simp
  then obtain a where u: "user_account after_login = Some a"
    by blast
  have t: "to_double (100 + - 150) = Fin (- 50)"
    using to_double_of_int [of "- 50"] by simp
  have d: "update_balance after_login ''1001'' (Fin (- 150)) ''Deposit''
             = (Returned (True, TxnSuccessful ''Deposit'' (Fin (- 50))),
                after_login\<lparr>users := sql_update_balance (users after_login) ''1001'' (Fin (- 50)),
                            user_account := Some (a\<lparr>balance := Fin (- 50)\<rparr>)\<rparr>)"
    using b u t by (rule deposit_finite)
  show ?thesis
    using e b select_balance_updated [OF b] by (simp add: d)
qed


section \<open>Enrollment\<close>

text \<open>
  C8. Enrolling an account number that already has a row fails with
  \<open>Error: Account number already exists.\<close> before anything is written: the table, the
  enrolled files and the session are the ones of before.
\<close>

theorem enroll_duplicate_identity:
  assumes "\<exists>u\<in>set (users s). account_no u = acc"
  shows "enroll_user P s acc nm initial_deposit image_bytes = ((False, AccountExists), s)"
  using assms by (simp add: enroll_user_def)

theorem enroll_duplicate_identity_witness:
  "(\<exists>u\<in>set (users bank). account_no u = ''1002'')
   \<and> enroll_user camera bank ''1002'' ''Carol'' (Fin 10) 3 = ((False, AccountExists), bank)"
proof -
  have h: "\<exists>u\<in>set (users bank). account_no u = ''1002''"
    by (simp add: bank_def alice_def bob_def)
  show ?thesis using enroll_duplicate_identity [OF h] h by simp
qed






section \<open>Login\<close>

text \<open>\<open>PROBE_FILE\<close> is a file of the enrollment directory.\<close>

lemma probe_file_location:
  "locate scratch_exists (path_join ENROLLMENT_DIR PROBE_NAME) = InStore PROBE_NAME"
  by (simp add: locate_def path_join_def ENROLLMENT_DIR_def PROBE_NAME_def enter_def Let_def)

lemma verify_enrolled_faces: "enrolled_faces (snd (verify P s img)) = enrolled_faces s"
  by (simp add: verify_def split: find_result.splits prod.splits option.splits)

lemma login_steps:
  assumes "decodes P img"
  shows "snd (show_login_view_steps P s (Some img) True)
           = [s, save_probe s img, make_clean_db (save_probe s img),
              (make_clean_db (save_probe s img))\<lparr>debug_match_path := None\<rparr>,
              snd (verify P ((make_clean_db (save_probe s img))\<lparr>debug_match_path := None\<rparr>) img),
              cleanup (snd (verify P
                ((make_clean_db (save_probe s img))\<lparr>debug_match_path := None\<rparr>) img))]"
  using assms by (simp add: show_login_view_steps_def Let_def)

lemma save_probe_fields:
  "users (save_probe s img) = users s"
  "enrolled_faces (save_probe s img) = AList.update PROBE_NAME img (enrolled_faces s)"
  by (simp_all add: save_probe_def)

lemma make_clean_db_fields:
  "users (make_clean_db s) = users s"
  "enrolled_faces (make_clean_db s) = enrolled_faces s"
  by (simp_all add: make_clean_db_def Let_def)

lemma cleanup_fields:
  "users (cleanup s) = users s"
  "enrolled_faces (cleanup s) = AList.delete PROBE_NAME (enrolled_faces s)"
  "temp_clean_db (cleanup s) = None"
  by (simp_all add: cleanup_def)

text \<open>
  C4, as the code has it. The login saves the probe in the enrollment directory, under the
  reserved name \<open>temp_auth_file.jpg\<close>, and removes it before it returns. In every state of
  the call the table is the one of before and so is every enrolled file of another name;
  the call leaves the enrollment directory without the reserved name and otherwise as it
  found it, and leaves no scratch directory.
\<close>

theorem login_keeps_other_templates:
  assumes "decodes P img"
  shows "(\<forall>s'\<in>set (snd (show_login_view_steps P s (Some img) True)).
            users s' = users s
            \<and> (\<forall>f. f \<noteq> PROBE_NAME \<longrightarrow> map_of (enrolled_faces s') f = map_of (enrolled_faces s) f))
         \<and> enrolled_faces (snd (show_login_view P s (Some img) True))
             = AList.delete PROBE_NAME (enrolled_faces s)
         \<and> temp_clean_db (snd (show_login_view P s (Some img) True)) = None"
proof -
  have "snd (show_login_view P s (Some img) True)
          = cleanup (snd (verify P
              ((make_clean_db (save_probe s img))\<lparr>debug_match_path := None\<rparr>) img))"
    by (simp add: show_login_view_def Let_def login_steps [OF assms])
  then show ?thesis
    by (simp add: login_steps [OF assms] save_probe_fields make_clean_db_fields cleanup_fields
        verify_users verify_enrolled_faces update_conv' delete_conv' delete_update_same)
qed

theorem login_keeps_other_templates_witness:
  "decodes camera 7
   \<and> list_all (\<lambda>s'. users s' = users bank
                    \<and> map_of (enrolled_faces s') ''1002.jpg'' = Some 2)
        (snd (show_login_view_steps camera bank (Some 7) True))
   \<and> enrolled_faces (snd (show_login_view camera bank (Some 7) True)) = enrolled_faces bank
   \<and> temp_clean_db (snd (show_login_view camera bank (Some 7) True)) = None"
proof -
  have h: "decodes camera 7"
    by (simp add: camera_def)
  have d: "AList.delete PROBE_NAME (enrolled_faces bank) = enrolled_faces bank"
    by (simp add: bank_def PROBE_NAME_def)
  have n: "''1002.jpg'' \<noteq> PROBE_NAME"
    by (simp add: PROBE_NAME_def)
  have m: "map_of (enrolled_faces bank) ''1002.jpg'' = Some 2"
    by (simp add: bank_def)
  show ?thesis
    using login_keeps_other_templates [OF h, of bank] h n m
    by (simp only: d list_all_iff) simp
qed

text \<open>
  C4, as the claim states it, fails: after the first write of a login at the bank, the
  enrollment directory holds the probe beside the two enrolled templates.
\<close>

theorem probe_saved_among_templates:
  "enrolled_faces bank = [(''1001.jpg'', 1), (''1002.jpg'', 2)]
   \<and> enrolled_faces (snd (show_login_view_steps camera bank (Some 7) True) ! 1)
       = [(''1001.jpg'', 1), (''1002.jpg'', 2), (''temp_auth_file.jpg'', 7)]"
proof -
  have h: "decodes camera 7"
    by (simp add: camera_def)
  show ?thesis
    by (simp add: login_steps [OF h] save_probe_fields) (simp add: bank_def PROBE_NAME_def)
qed


lemma login_result:
  assumes "decodes P img"
  shows "show_login_view P s (Some img) True
           = (Returned (fst (verify P ((make_clean_db (save_probe s img))
                                        \<lparr>debug_match_path := None\<rparr>) img)),
              cleanup (snd (verify P ((make_clean_db (save_probe s img))
                                        \<lparr>debug_match_path := None\<rparr>) img)))"
  using assms by (simp add: show_login_view_def show_login_view_steps_def Let_def)

lemma verify_success:
  "fst (verify P s img) = AuthSuccessful n
   \<Longrightarrow> \<exists>row rows frames. deepface_find P img (searched_files s) = Results ((row # rows) # frames)"
  by (auto simp: verify_def process_results_def
      split: find_result.splits list.splits option.splits prod.splits)

lemma threshold_find_within:
  assumes "threshold_find distance threshold probe db = Results ((row # rows) # frames)"
  shows "\<exists>(f, t)\<in>set db. distance probe t \<le> threshold"
proof -
  let ?rows = "filter (\<lambda>row. snd row \<le> threshold)
                 (map (\<lambda>(f, img). (path_join TEMP_DB_DIR f, distance probe img)) db)"
  have "row # rows = sort_key snd ?rows"
    using assms by (simp add: threshold_find_def)
  then have "row \<in> set (sort_key snd ?rows)"
    by (metis list.set_intros(1))
  then have "row \<in> set ?rows"
    by simp
  then obtain f t where "(f, t) \<in> set db" and "distance probe t \<le> threshold"
    by auto
  then show ?thesis
    by blast
qed

text \<open>
  C1, as the code has it. The login has no ambiguity margin and no ambiguous outcome.
  When the first data frame that the search returns has at least one row, the login takes
  the first row of that frame, whatever the other rows and their distances are: if an
  account's \<open>enrolled_face_path\<close> is the path of that row's file, the login succeeds as
  that account; if none is, it fails. The threshold is the search's: with a search that
  keeps the files within a distance threshold, ranked by distance, a login succeeds only
  when a searched file, and so the best one, is within the threshold of the probe.
\<close>

theorem login_trusts_top_candidate:
  assumes "decodes P img"
  shows "(\<forall>row rows frames.
            deepface_find P img (searched_files (make_clean_db (save_probe s img)))
              = Results ((row # rows) # frames) \<longrightarrow>
            (case select_by_path (users s) (match_path (fst row)) of
               Some u \<Rightarrow>
                 fst (show_login_view P s (Some img) True) = Returned (AuthSuccessful (name u))
                 \<and> logged_in (snd (show_login_view P s (Some img) True))
                 \<and> user_account (snd (show_login_view P s (Some img) True)) = Some u
             | None \<Rightarrow>
                 fst (show_login_view P s (Some img) True)
                   = Returned (AuthFailed (Some (match_path (fst row))))
                 \<and> logged_in (snd (show_login_view P s (Some img) True)) = logged_in s
                 \<and> user_account (snd (show_login_view P s (Some img) True)) = user_account s))
         \<and> (\<forall>distance threshold n.
              deepface_find P = threshold_find distance threshold \<longrightarrow>
              fst (show_login_view P s (Some img) True) = Returned (AuthSuccessful n) \<longrightarrow>
              (\<exists>(f, t)\<in>set (searched_files (make_clean_db (save_probe s img))).
                 distance img t \<le> threshold))"
proof (intro conjI allI impI)
  fix row rows frames
  assume "deepface_find P img (searched_files (make_clean_db (save_probe s img)))
            = Results ((row # rows) # frames)"
  then have f: "deepface_find P img
                  (searched_files ((make_clean_db (save_probe s img))\<lparr>debug_match_path := None\<rparr>))
                  = Results ((row # rows) # frames)"
    by (simp add: searched_files_def)
  have u: "users (make_clean_db (save_probe s img)) = users s"
    and l: "logged_in (make_clean_db (save_probe s img)) = logged_in s"
    and a: "user_account (make_clean_db (save_probe s img)) = user_account s"
    by (simp_all add: make_clean_db_def save_probe_def Let_def)
  show "case select_by_path (users s) (match_path (fst row)) of
          Some u \<Rightarrow>
            fst (show_login_view P s (Some img) True) = Returned (AuthSuccessful (name u))
            \<and> logged_in (snd (show_login_view P s (Some img) True))
            \<and> user_account (snd (show_login_view P s (Some img) True)) = Some u
        | None \<Rightarrow>
            fst (show_login_view P s (Some img) True)
              = Returned (AuthFailed (Some (match_path (fst row))))
            \<and> logged_in (snd (show_login_view P s (Some img) True)) = logged_in s
            \<and> user_account (snd (show_login_view P s (Some img) True)) = user_account s"
    by (simp add: login_result [OF assms] verify_def f process_results_def u l a cleanup_def
        split: option.splits)
next
  fix distance threshold n
  assume t: "deepface_find P = threshold_find distance threshold"
    and "fst (show_login_view P s (Some img) True) = Returned (AuthSuccessful n)"
  then have "fst (verify P ((make_clean_db (save_probe s img))\<lparr>debug_match_path := None\<rparr>) img)
               = AuthSuccessful n"
    by (simp add: login_result [OF assms])
  from verify_success [OF this] obtain row rows frames where
    "deepface_find P img
       (searched_files ((make_clean_db (save_probe s img))\<lparr>debug_match_path := None\<rparr>))
       = Results ((row # rows) # frames)"
    by blast
  then have "threshold_find distance threshold img
               (searched_files (make_clean_db (save_probe s img)))
               = Results ((row # rows) # frames)"
    by (simp add: t searched_files_def)
  then show "\<exists>(f, t)\<in>set (searched_files (make_clean_db (save_probe s img))).
               distance img t \<le> threshold"
    by (rule threshold_find_within)
qed

theorem login_trusts_top_candidate_witness:
  "decodes camera 7
   \<and> deepface_find camera 7 (searched_files (make_clean_db (save_probe bank 7)))
       = Results [[(''temp_clean_db/1001.jpg'', 30 / 100), (''temp_clean_db/1002.jpg'', 31 / 100)]]
   \<and> select_by_path (users bank) (match_path ''temp_clean_db/1001.jpg'') = Some alice
   \<and> fst (show_login_view camera bank (Some 7) True) = Returned (AuthSuccessful ''Alice'')
   \<and> logged_in (snd (show_login_view camera bank (Some 7) True))
   \<and> user_account (snd (show_login_view camera bank (Some 7) True)) = Some alice
   \<and> deepface_find camera = threshold_find face_distance (40 / 100)
   \<and> (\<exists>(f, t)\<in>set (searched_files (make_clean_db (save_probe bank 7))).
         face_distance 7 t \<le> 40 / 100)"
proof -
  have h1: "decodes camera 7"
    by (simp add: camera_def)
  have h2: "deepface_find camera 7 (searched_files (make_clean_db (save_probe bank 7)))
              = Results [[(''temp_clean_db/1001.jpg'', 30 / 100),
                          (''temp_clean_db/1002.jpg'', 31 / 100)]]"
    by code_simp
  have h3: "select_by_path (users bank) (match_path ''temp_clean_db/1001.jpg'') = Some alice"
    by code_simp
  have h4: "deepface_find camera = threshold_find face_distance (40 / 100)"
    by (simp add: camera_def)
  have n: "name alice = ''Alice''"
    by (simp add: alice_def)
  note t = login_trusts_top_candidate [OF h1, of bank]
  have a: "fst (show_login_view camera bank (Some 7) True) = Returned (AuthSuccessful ''Alice'')
           \<and> logged_in (snd (show_login_view camera bank (Some 7) True))
           \<and> user_account (snd (show_login_view camera bank (Some 7) True)) = Some alice"
    using t h2 h3 n by simp
  then have "\<exists>(f, t)\<in>set (searched_files (make_clean_db (save_probe bank 7))).
               face_distance 7 t \<le> 40 / 100"
    using t h4 by blast
  then show ?thesis
    using h1 h2 h3 h4 a by simp
qed

text \<open>
  C1, as the claim states it, fails. The capture 7 is at distance \<open>0.30\<close> of Alice's
  template and \<open>0.31\<close> of Bob's, both within the search threshold \<open>0.40\<close>: as similarity
  scores, \<open>0.70\<close> and \<open>0.69\<close> above an acceptance threshold of \<open>0.60\<close> and within a margin
  of \<open>0.05\<close> of each other, which the resolver of the specification declares ambiguous.
  The login succeeds as Alice.
\<close>

theorem ambiguous_probe_logs_in:
  "face_distance 7 1 = 30 / 100 \<and> face_distance 7 2 = 31 / 100
   \<and> resolve_spec (60 / 100) (5 / 100)
        [(''1001'', 1 - face_distance 7 1), (''1002'', 1 - face_distance 7 2)] = AMBIGUOUS
   \<and> show_login_view camera bank (Some 7) True
       = (Returned (AuthSuccessful ''Alice''),
          bank\<lparr>logged_in := True, user_account := Some alice,
               debug_match_path := Some ''enrolled_faces/1001.jpg''\<rparr>)"
  by code_simp


end
